theory Spec2Isabelle
  imports Complex_Main "HOL-Library.Multiset"
begin

section \<open>JavaScript values as the handlers of server.js see them\<close>

text \<open>
  A number is an IEEE double. The model writes a double as a decimal
  \<open>m * 10 ^ e\<close> (\<open>Dec m e\<close>) and does not round the mantissa to 53 bits:
  \<open>Dec m e\<close> stands for the double nearest to that decimal, which is an infinity
  when the decimal is beyond the finite range and zero when it is below the smallest
  subnormal (\<open>toDouble\<close>). Every reader of a number goes through \<open>toDouble\<close>, so
  whether a number is NaN, infinite, zero or finite and non-zero is the program's.
  The sign of zero is not kept.
\<close>

datatype jsnum = NaN | PosInf | NegInf | Dec int int

definition pow10 :: "int \<Rightarrow> rat" where
  "pow10 e = (if 0 \<le> e then 10 ^ nat e else 1 / 10 ^ nat (- e))"

text \<open>
  The Number value of a decimal: beyond the largest double plus half a unit in the
  last place it is an infinity, at most half the smallest subnormal it is zero.
\<close>

definition toDouble :: "int \<Rightarrow> int \<Rightarrow> jsnum" where
  "toDouble m e =
     (let v = of_int m * pow10 e in
      if 2 ^ 1024 - 2 ^ 970 \<le> v then PosInf
      else if v \<le> - (2 ^ 1024 - 2 ^ 970) then NegInf
      else if \<bar>v\<bar> \<le> 1 / 2 ^ 1075 then Dec 0 0
      else Dec m e)"

text \<open>A number that is neither NaN nor an infinity.\<close>

fun is_finite :: "jsnum \<Rightarrow> bool" where
  "is_finite (Dec m e) = (toDouble m e \<noteq> PosInf \<and> toDouble m e \<noteq> NegInf)"
| "is_finite x = False"

text \<open>
  \<open>req.body\<close> is what \<open>express.json()\<close> parsed, so a field is absent
  (\<open>Undefined\<close>) or holds a JSON value. An array or object is kept as \<open>Object r\<close>,
  where \<open>r\<close> is the outcome of its conversion to a string (ToPrimitive with hint
  string): \<open>Some s\<close> when it yields \<open>s\<close> (\<open>[12]\<close> yields \<open>12\<close>, \<open>{}\<close> yields
  \<open>[object Object]\<close>), \<open>None\<close> when it throws a TypeError, as it does for an object
  with an own property \<open>toString\<close>, which after JSON.parse is never callable.
  Strings are over the code units 0 to 255.
\<close>

datatype jsval =
    Undefined
  | Null
  | Bool bool
  | Num jsnum
  | Str string
  | Object "string option"

text \<open>What a \<open>catch (err)\<close> reads of a thrown value: \<open>err.code\<close>, \<open>err.column\<close>
  (both absent on an error that the database driver did not raise) and \<open>err.message\<close>.\<close>

record js_error =
  code :: "string option"
  column :: "string option"
  message :: string

definition TypeError :: js_error where
  "TypeError = \<lparr>code = None, column = None,
     message = ''Cannot convert object to primitive value''\<rparr>"

subsection \<open>ToBoolean, the test behind \<open>!x\<close>\<close>

fun ToBoolean :: "jsval \<Rightarrow> bool" where
  "ToBoolean Undefined = False"
| "ToBoolean Null = False"
| "ToBoolean (Bool b) = b"
| "ToBoolean (Num NaN) = False"
| "ToBoolean (Num (Dec m e)) = (toDouble m e \<noteq> Dec 0 0)"
| "ToBoolean (Num PosInf) = True"
| "ToBoolean (Num NegInf) = True"
| "ToBoolean (Str s) = (s \<noteq> [])"
| "ToBoolean (Object r) = True"

subsection \<open>ToString\<close>

definition digit_char :: "int \<Rightarrow> char" where
  "digit_char d = char_of (48 + d)"

text \<open>The decimal digits of a non-negative integer.\<close>

function digits :: "int \<Rightarrow> string" where
  "digits n = (if n < 10 then [digit_char n] else digits (n div 10) @ [digit_char (n mod 10)])"
  by pat_completeness auto
termination
  by (relation "measure nat") auto

declare digits.simps [simp del]

text \<open>
  Number::toString, radix 10. With \<open>s\<close> the significant digits of the number (no
  trailing zero), \<open>k\<close> their count and \<open>n\<close> the position of the decimal point
  (the value is \<open>0.s * 10 ^ n\<close>), the four layouts of the language definition.
\<close>

definition Number_toString_pos :: "int \<Rightarrow> int \<Rightarrow> string" where
  "Number_toString_pos m e =
     (let ds = digits m;
          s = rev (dropWhile (\<lambda>c. c = CHR ''0'') (rev ds));
          k = int (length s);
          n = k + e + (int (length ds) - k)
      in if k \<le> n \<and> n \<le> 21 then s @ replicate (nat (n - k)) CHR ''0''
         else if 0 < n \<and> n \<le> 21 then take (nat n) s @ ''.'' @ drop (nat n) s
         else if - 6 < n \<and> n \<le> 0 then ''0.'' @ replicate (nat (- n)) CHR ''0'' @ s
         else let x = n - 1;
                  ex = (if x < 0 then ''-'' else ''+'') @ digits \<bar>x\<bar>
              in if k = 1 then s @ ''e'' @ ex
                 else take 1 s @ ''.'' @ drop 1 s @ ''e'' @ ex)"

fun Number_toString :: "jsnum \<Rightarrow> string" where
  "Number_toString NaN = ''NaN''"
| "Number_toString PosInf = ''Infinity''"
| "Number_toString NegInf = ''-Infinity''"
| "Number_toString (Dec m e) =
     (case toDouble m e of
        Dec m' e' \<Rightarrow>
          if m' = 0 then ''0''
          else if m' < 0 then ''-'' @ Number_toString_pos (- m') e'
          else Number_toString_pos m' e'
      | PosInf \<Rightarrow> ''Infinity''
      | NegInf \<Rightarrow> ''-Infinity''
      | NaN \<Rightarrow> ''NaN'')"

fun ToString :: "jsval \<Rightarrow> js_error + string" where
  "ToString Undefined = Inr ''undefined''"
| "ToString Null = Inr ''null''"
| "ToString (Bool b) = Inr (if b then ''true'' else ''false'')"
| "ToString (Num x) = Inr (Number_toString x)"
| "ToString (Str s) = Inr s"
| "ToString (Object None) = Inl TypeError"
| "ToString (Object (Some s)) = Inr s"

subsection \<open>parseFloat and isNaN\<close>

definition isWhiteSpace :: "char \<Rightarrow> bool" where
  \<comment> \<open>TAB, LF, VT, FF, CR, SP, NBSP: the white space and line terminators below 256\<close>
  "isWhiteSpace c = (of_char c \<in> {9, 10, 11, 12, 13, 32, 160 :: nat})"

definition isDigit :: "char \<Rightarrow> bool" where
  "isDigit c = (c \<in> set ''0123456789'')"

definition digit_val :: "char \<Rightarrow> int" where
  "digit_val c = of_char c - 48"

definition int_of_digits :: "string \<Rightarrow> int" where
  "int_of_digits ds = foldl (\<lambda>a c. 10 * a + digit_val c) 0 ds"

text \<open>
  The longest prefix that is a StrUnsignedDecimalLiteral:
  \<open>Infinity\<close>, or digits with an optional fraction (one of the two digit runs may be
  empty, not both), then an exponent part if it is complete. \<open>None\<close> when no prefix
  is one. Trailing zeros of the digits move into the exponent, so that one number has
  one representation.
\<close>

definition StrUnsignedDecimalLiteral :: "bool \<Rightarrow> string \<Rightarrow> jsnum option" where
  "StrUnsignedDecimalLiteral neg s =
     (if take 8 s = ''Infinity'' then Some (if neg then NegInf else PosInf)
      else
        let ip = takeWhile isDigit s;
            r1 = dropWhile isDigit s;
            dot = (r1 \<noteq> [] \<and> hd r1 = CHR ''.'');
            fp = (if dot then takeWhile isDigit (tl r1) else []);
            r2 = (if dot then dropWhile isDigit (tl r1) else r1)
        in if ip = [] \<and> fp = [] then None
           else
             let hasE = (r2 \<noteq> [] \<and> (hd r2 = CHR ''e'' \<or> hd r2 = CHR ''E''));
                 r3 = (if hasE then tl r2 else []);
                 eneg = (r3 \<noteq> [] \<and> hd r3 = CHR ''-'');
                 r4 = (if r3 \<noteq> [] \<and> (hd r3 = CHR ''-'' \<or> hd r3 = CHR ''+'') then tl r3 else r3);
                 ep = takeWhile isDigit r4;
                 ex = (if eneg then - int_of_digits ep else int_of_digits ep);
                 ds = ip @ fp;
                 sig = rev (dropWhile (\<lambda>c. c = CHR ''0'') (rev ds));
                 m = int_of_digits sig;
                 e = ex - int (length fp) + (int (length ds) - int (length sig))
             in Some (if m = 0 then Dec 0 0
                      else toDouble (if neg then - m else m) e))"

definition StrDecimalLiteral :: "string \<Rightarrow> jsnum option" where
  "StrDecimalLiteral s =
     (case s of
        [] \<Rightarrow> None
      | c # cs \<Rightarrow>
          if c = CHR ''-'' then StrUnsignedDecimalLiteral True cs
          else if c = CHR ''+'' then StrUnsignedDecimalLiteral False cs
          else StrUnsignedDecimalLiteral False s)"

definition parseFloat :: "jsval \<Rightarrow> js_error + jsnum" where
  "parseFloat v =
     (case ToString v of
        Inl err \<Rightarrow> Inl err
      | Inr inputString \<Rightarrow>
          (case StrDecimalLiteral (dropWhile isWhiteSpace inputString) of
             None \<Rightarrow> Inr NaN
           | Some x \<Rightarrow> Inr x))"

definition isNaN :: "jsnum \<Rightarrow> bool" where
  "isNaN x = (x = NaN)"

subsection \<open>The helper of server.js\<close>

text \<open>
  \<^verbatim>\<open>const parseNumeric = (value) => {
    const num = parseFloat(value);
    return isNaN(num) ? null : num; };\<close>
\<close>

definition parseNumeric :: "jsval \<Rightarrow> js_error + jsval" where
  "parseNumeric v =
     (case parseFloat v of
        Inl err \<Rightarrow> Inl err
      | Inr num \<Rightarrow> Inr (if isNaN num then Null else Num num))"

section \<open>The route handlers\<close>

text \<open>
  \<open>req.body\<close> as an object: the own properties that JSON.parse created. Reading a
  property that is not there gives \<open>undefined\<close> (this is what the destructuring
  \<open>const { bilty_sl_no, ... } = req.body\<close> does for each name). A request for which
  \<open>express.json()\<close> leaves no object in \<open>req.body\<close> is outside the model.
\<close>

type_synonym body = "string \<rightharpoonup> jsval"

definition get_prop :: "body \<Rightarrow> string \<Rightarrow> jsval" where
  "get_prop b k = (case b k of None \<Rightarrow> Undefined | Some v \<Rightarrow> v)"

text \<open>
  The four statements that the handlers send with \<open>pool.query(text, values)\<close>:
  \<^item> \<open>SelectAll\<close>: \<^verbatim>\<open>SELECT * FROM bilty_data ORDER BY id DESC\<close>
  \<^item> \<open>Insert values\<close>: \<^verbatim>\<open>INSERT INTO bilty_data (bilty_sl_no, lr_no, bill_no, bill_date,
    truck_no, destination, weight, freight, diesel, total_adv, balance, pump_name,
    payment_officer, damage_if_any, margin) VALUES ($1, ..., $15) RETURNING *\<close>
  \<^item> \<open>Update values\<close>: \<^verbatim>\<open>UPDATE bilty_data SET bilty_sl_no = $1, lr_no = $2, bill_no = $3,
    bill_date = $4, truck_no = $5, destination = $6, weight = $7, freight = $8, diesel = $9,
    total_adv = $10, balance = $11, pump_name = $12, payment_officer = $13,
    damage_if_any = $14, margin = $15 WHERE id = $16 RETURNING *\<close>
  \<^item> \<open>Delete values\<close>: \<^verbatim>\<open>DELETE FROM bilty_data WHERE id = $1 RETURNING id\<close>
\<close>

datatype stmt =
    SelectAll
  | Insert "jsval list"
  | Update "jsval list"
  | Delete "jsval list"

record bilty_row =
  row_id :: int
  bilty_sl_no :: jsval
  lr_no :: jsval
  bill_no :: jsval
  bill_date :: jsval
  truck_no :: jsval
  destination :: jsval
  weight :: jsval
  freight :: jsval
  diesel :: jsval
  total_adv :: jsval
  balance :: jsval
  pump_name :: jsval
  payment_officer :: jsval
  damage_if_any :: jsval
  margin :: jsval

text \<open>A row of a result: all columns (\<open>RETURNING *\<close>, \<open>SELECT *\<close>) or the id alone
  (\<open>RETURNING id\<close>).\<close>

datatype pg_row = Row bilty_row | IdRow int

record query_result =
  rows :: "pg_row list"
  rowCount :: nat

text \<open>
  \<open>await pool.query(...)\<close> over a store in state \<open>'s\<close>: it resolves to a result or
  throws, and leaves the store in a new state. The handlers are written over any
  such store.
\<close>

type_synonym 's pool_query = "stmt \<Rightarrow> 's \<Rightarrow> (js_error + query_result) \<times> 's"

text \<open>
  The body of a response, as the client reads it. \<open>res.json(x)\<close> sends
  \<open>JSON.stringify(x)\<close>, which writes a number that is not finite as \<open>null\<close> and
  every other primitive as it is. An array or object is written member by member
  and is kept as it is here; the representation has no place for an infinity inside
  one.
\<close>

datatype json = NoBody | JsonError string | JsonRow pg_row | JsonRows "pg_row list" | JsonUndefined

record response =
  status :: nat
  payload :: json

fun JSON_value :: "jsval \<Rightarrow> jsval" where
  "JSON_value (Num x) = (if is_finite x then Num x else Null)"
| "JSON_value v = v"

definition JSON_row :: "bilty_row \<Rightarrow> bilty_row" where
  "JSON_row r =
     \<lparr>row_id = row_id r,
      bilty_sl_no = JSON_value (bilty_sl_no r), lr_no = JSON_value (lr_no r),
      bill_no = JSON_value (bill_no r), bill_date = JSON_value (bill_date r),
      truck_no = JSON_value (truck_no r), destination = JSON_value (destination r),
      weight = JSON_value (weight r), freight = JSON_value (freight r),
      diesel = JSON_value (diesel r), total_adv = JSON_value (total_adv r),
      balance = JSON_value (balance r), pump_name = JSON_value (pump_name r),
      payment_officer = JSON_value (payment_officer r),
      damage_if_any = JSON_value (damage_if_any r), margin = JSON_value (margin r)\<rparr>"

fun JSON_stringify :: "pg_row \<Rightarrow> pg_row" where
  "JSON_stringify (Row r) = Row (JSON_row r)"
| "JSON_stringify (IdRow i) = IdRow i"

text \<open>\<open>res.json(result.rows[0])\<close>; \<open>result.rows[0]\<close> is \<open>undefined\<close> on an empty
  array.\<close>

definition rows_0 :: "pg_row list \<Rightarrow> json" where
  "rows_0 rs = (case rs of [] \<Rightarrow> JsonUndefined | r # _ \<Rightarrow> JsonRow (JSON_stringify r))"

text \<open>An array literal is evaluated left to right; the first element that throws ends it.\<close>

fun sequence_sum :: "('e + 'a) list \<Rightarrow> 'e + 'a list" where
  "sequence_sum [] = Inr []"
| "sequence_sum (x # xs) =
     (case x of
        Inl e \<Rightarrow> Inl e
      | Inr v \<Rightarrow> (case sequence_sum xs of Inl e \<Rightarrow> Inl e | Inr vs \<Rightarrow> Inr (v # vs)))"

text \<open>The first fifteen elements of \<open>values\<close>, the same in Create and in Update.\<close>

definition bilty_values :: "body \<Rightarrow> js_error + jsval list" where
  "bilty_values b = sequence_sum
     [Inr (get_prop b ''bilty_sl_no''), Inr (get_prop b ''lr_no''), Inr (get_prop b ''bill_no''),
      Inr (get_prop b ''bill_date''), Inr (get_prop b ''truck_no''), Inr (get_prop b ''destination''),
      parseNumeric (get_prop b ''weight''), parseNumeric (get_prop b ''freight''),
      parseNumeric (get_prop b ''diesel''), parseNumeric (get_prop b ''total_adv''),
      parseNumeric (get_prop b ''balance''), Inr (get_prop b ''pump_name''),
      Inr (get_prop b ''payment_officer''), Inr (get_prop b ''damage_if_any''),
      parseNumeric (get_prop b ''margin'')]"

subsection \<open>GET /api/bilty\<close>

definition get_bilty :: "'s pool_query \<Rightarrow> 's \<Rightarrow> response \<times> 's" where
  "get_bilty query st =
     (case query SelectAll st of
        (Inr result, st') \<Rightarrow>
          (\<lparr>status = 200, payload = JsonRows (map JSON_stringify (rows result))\<rparr>, st')
      | (Inl err, st') \<Rightarrow>
          (\<lparr>status = 500, payload = JsonError ''Server error fetching bilty data.''\<rparr>, st'))"

subsection \<open>POST /api/bilty\<close>

definition required_response :: response where
  "required_response =
     \<lparr>status = 400, payload = JsonError ''Bilty SL No. and Weight are required.''\<rparr>"

text \<open>The \<open>catch\<close> block of Create.\<close>

definition post_catch :: "js_error \<Rightarrow> response" where
  "post_catch err =
     (if code err = Some ''23505'' then
        \<lparr>status = 409,
         payload = JsonError ''Bilty SL No. already exists. Please use a unique number.''\<rparr>
      else if code err = Some ''23502'' then
        \<lparr>status = 400,
         payload = JsonError (''Missing required data for column: '' @
           (case column err of None \<Rightarrow> ''undefined'' | Some c \<Rightarrow> c))\<rparr>
      else \<lparr>status = 500, payload = JsonError (''Server error: '' @ message err)\<rparr>)"

definition post_bilty :: "'s pool_query \<Rightarrow> body \<Rightarrow> 's \<Rightarrow> response \<times> 's" where
  "post_bilty query b st =
     (if \<not> ToBoolean (get_prop b ''bilty_sl_no'') \<or> \<not> ToBoolean (get_prop b ''weight'')
      then (required_response, st)
      else
        (case bilty_values b of
           Inl err \<Rightarrow> (post_catch err, st)
         | Inr values \<Rightarrow>
             (case query (Insert values) st of
                (Inr result, st') \<Rightarrow> (\<lparr>status = 201, payload = rows_0 (rows result)\<rparr>, st')
              | (Inl err, st') \<Rightarrow> (post_catch err, st'))))"

subsection \<open>PUT /api/bilty/:id\<close>

definition not_found_response :: response where
  "not_found_response = \<lparr>status = 404, payload = JsonError ''Bilty entry not found.''\<rparr>"

text \<open>The \<open>catch\<close> block of Update.\<close>

definition put_catch :: "js_error \<Rightarrow> response" where
  "put_catch err = \<lparr>status = 500, payload = JsonError (''Server error: '' @ message err)\<rparr>"

definition put_bilty :: "'s pool_query \<Rightarrow> string \<Rightarrow> body \<Rightarrow> 's \<Rightarrow> response \<times> 's" where
  "put_bilty query path_id b st =
     (case bilty_values b of
        Inl err \<Rightarrow> (put_catch err, st)
      | Inr values \<Rightarrow>
          (case query (Update (values @ [Str path_id])) st of
             (Inr result, st') \<Rightarrow>
               if length (rows result) = 0 then (not_found_response, st')
               else (\<lparr>status = 200, payload = rows_0 (rows result)\<rparr>, st')
           | (Inl err, st') \<Rightarrow> (put_catch err, st')))"

subsection \<open>DELETE /api/bilty/:id\<close>

definition delete_bilty :: "'s pool_query \<Rightarrow> string \<Rightarrow> 's \<Rightarrow> response \<times> 's" where
  "delete_bilty query path_id st =
     (case query (Delete [Str path_id]) st of
        (Inr result, st') \<Rightarrow>
          if rowCount result = 0 then (not_found_response, st')
          else (\<lparr>status = 204, payload = NoBody\<rparr>, st')
      | (Inl err, st') \<Rightarrow>
          (\<lparr>status = 500, payload = JsonError ''Server error deleting bilty entry.''\<rparr>, st'))"

section \<open>The store\<close>

text \<open>
  Modelled from the spec: the schema of table \<open>bilty_data\<close>, which server.js uses and
  does not create. Section 6 of the specification gives it: the columns of the record,
  \<open>id\<close> an auto-incrementing integer primary key, \<open>bilty_sl_no\<close> under a uniqueness
  constraint, \<open>weight\<close> under a not-null constraint. The statements are the four of
  the source, with their meaning in PostgreSQL. A column keeps the parameter as the
  driver binds it (\<open>undefined\<close> is bound as NULL); the conversion of a value to the
  type of its column is modelled for \<open>id\<close> only.
\<close>

record pg_state =
  bilty_data :: "bilty_row list"
  id_seq :: int

definition pg_empty :: pg_state where
  "pg_empty = \<lparr>bilty_data = [], id_seq = 1\<rparr>"

definition prepareValue :: "jsval \<Rightarrow> jsval" where
  "prepareValue v = (if v = Undefined then Null else v)"

text \<open>A name or value between double quotes, as the messages of PostgreSQL have it.\<close>

definition quoted :: "string \<Rightarrow> string" where
  "quoted s = CHR 0x22 # s @ [CHR 0x22]"

definition unique_violation :: js_error where
  "unique_violation = \<lparr>code = Some ''23505'', column = None,
     message = ''duplicate key value violates unique constraint '' @
       quoted ''bilty_data_bilty_sl_no_key''\<rparr>"

definition not_null_violation :: "string \<Rightarrow> js_error" where
  "not_null_violation c = \<lparr>code = Some ''23502'', column = Some c,
     message = ''null value in column '' @ quoted c @ '' of relation '' @
       quoted ''bilty_data'' @ '' violates not-null constraint''\<rparr>"

definition invalid_text_representation :: "string \<Rightarrow> js_error" where
  "invalid_text_representation s = \<lparr>code = Some ''22P02'', column = None,
     message = ''invalid input syntax for type integer: '' @ quoted s\<rparr>"

definition numeric_value_out_of_range :: "string \<Rightarrow> js_error" where
  "numeric_value_out_of_range s = \<lparr>code = Some ''22003'', column = None,
     message = ''value '' @ quoted s @ '' is out of range for type integer''\<rparr>"

definition protocol_violation :: js_error where
  "protocol_violation = \<lparr>code = Some ''08P01'', column = None,
     message = ''bind message does not supply the parameters of the statement''\<rparr>"

definition isspace :: "char \<Rightarrow> bool" where
  "isspace c = (of_char c \<in> {9, 10, 11, 12, 13, 32 :: nat})"

text \<open>
  The text of a parameter read as an \<open>integer\<close>: white space, a sign, decimal digits,
  white space, within 32 bits. Anything else is a fault of the statement.
\<close>

definition pg_int4_in :: "string \<Rightarrow> js_error + int" where
  "pg_int4_in s =
     (let t = dropWhile isspace s;
          neg = (t \<noteq> [] \<and> hd t = CHR ''-'');
          u = (if t \<noteq> [] \<and> (hd t = CHR ''-'' \<or> hd t = CHR ''+'') then tl t else t);
          ds = takeWhile isDigit u;
          rest = dropWhile isspace (dropWhile isDigit u);
          n = (if neg then - int_of_digits ds else int_of_digits ds)
      in if ds = [] \<or> rest \<noteq> [] then Inl (invalid_text_representation s)
         else if n < - (2 ^ 31) \<or> 2 ^ 31 \<le> n then Inl (numeric_value_out_of_range s)
         else Inr n)"

text \<open>The row that fifteen parameters make, in the column order of both statements.\<close>

definition row_of :: "int \<Rightarrow> jsval list \<Rightarrow> bilty_row option" where
  "row_of i ps =
     (if length ps = 15 then
        Some \<lparr>row_id = i,
          bilty_sl_no = prepareValue (ps ! 0), lr_no = prepareValue (ps ! 1),
          bill_no = prepareValue (ps ! 2), bill_date = prepareValue (ps ! 3),
          truck_no = prepareValue (ps ! 4), destination = prepareValue (ps ! 5),
          weight = prepareValue (ps ! 6), freight = prepareValue (ps ! 7),
          diesel = prepareValue (ps ! 8), total_adv = prepareValue (ps ! 9),
          balance = prepareValue (ps ! 10), pump_name = prepareValue (ps ! 11),
          payment_officer = prepareValue (ps ! 12), damage_if_any = prepareValue (ps ! 13),
          margin = prepareValue (ps ! 14)\<rparr>
      else None)"

text \<open>
  INSERT: the id comes from the sequence, which advances whether or not the row is
  kept; the not-null constraint is checked before the unique index; NULLs never
  collide.
\<close>

definition pg_insert :: "jsval list \<Rightarrow> pg_state \<Rightarrow> (js_error + query_result) \<times> pg_state" where
  "pg_insert ps st =
     (case row_of (id_seq st) ps of
        None \<Rightarrow> (Inl protocol_violation, st)
      | Some r \<Rightarrow>
          let st1 = st\<lparr>id_seq := id_seq st + 1\<rparr> in
          if weight r = Null then (Inl (not_null_violation ''weight''), st1)
          else if bilty_sl_no r \<noteq> Null \<and>
                  (\<exists>x \<in> set (bilty_data st). bilty_sl_no x = bilty_sl_no r)
          then (Inl unique_violation, st1)
          else (Inr \<lparr>rows = [Row r], rowCount = 1\<rparr>,
                st1\<lparr>bilty_data := bilty_data st @ [r]\<rparr>))"

text \<open>
  UPDATE ... WHERE id = $16: the last parameter is read as an integer first; rows are
  checked against the constraints only if some row has that id. The handler always
  binds sixteen parameters, the last one a string; a statement of another shape is
  answered with a fault.
\<close>

definition pg_update :: "jsval list \<Rightarrow> pg_state \<Rightarrow> (js_error + query_result) \<times> pg_state" where
  "pg_update ps st =
     (if ps = [] then (Inl protocol_violation, st)
      else
        (case last ps of
           Str s \<Rightarrow>
             (case pg_int4_in s of
                Inl err \<Rightarrow> (Inl err, st)
              | Inr n \<Rightarrow>
                  (case row_of n (butlast ps) of
                     None \<Rightarrow> (Inl protocol_violation, st)
                   | Some r \<Rightarrow>
                       let hits = filter (\<lambda>x. row_id x = n) (bilty_data st) in
                       if hits = [] then (Inr \<lparr>rows = [], rowCount = 0\<rparr>, st)
                       else if weight r = Null then (Inl (not_null_violation ''weight''), st)
                       else if bilty_sl_no r \<noteq> Null \<and>
                               (\<exists>x \<in> set (bilty_data st).
                                  row_id x \<noteq> n \<and> bilty_sl_no x = bilty_sl_no r)
                       then (Inl unique_violation, st)
                       else (Inr \<lparr>rows = map (\<lambda>x. Row r) hits, rowCount = length hits\<rparr>,
                             st\<lparr>bilty_data :=
                                  map (\<lambda>x. if row_id x = n then r else x) (bilty_data st)\<rparr>)))
         | _ \<Rightarrow> (Inl protocol_violation, st)))"

definition pg_delete :: "jsval list \<Rightarrow> pg_state \<Rightarrow> (js_error + query_result) \<times> pg_state" where
  "pg_delete ps st =
     (case ps of
        [Str s] \<Rightarrow>
          (case pg_int4_in s of
             Inl err \<Rightarrow> (Inl err, st)
           | Inr n \<Rightarrow>
               let hits = filter (\<lambda>x. row_id x = n) (bilty_data st) in
               (Inr \<lparr>rows = map (\<lambda>x. IdRow (row_id x)) hits, rowCount = length hits\<rparr>,
                st\<lparr>bilty_data := filter (\<lambda>x. row_id x \<noteq> n) (bilty_data st)\<rparr>))
      | _ \<Rightarrow> (Inl protocol_violation, st))"

definition pg_select :: "pg_state \<Rightarrow> (js_error + query_result) \<times> pg_state" where
  "pg_select st =
     (let rs = rev (sort_key row_id (bilty_data st))
      in (Inr \<lparr>rows = map Row rs, rowCount = length rs\<rparr>, st))"

fun pg_query :: "pg_state pool_query" where
  "pg_query SelectAll st = pg_select st"
| "pg_query (Insert ps) st = pg_insert ps st"
| "pg_query (Update ps) st = pg_update ps st"
| "pg_query (Delete ps) st = pg_delete ps st"

section \<open>Notions that the claims use\<close>

text \<open>A primitive value: anything but an array or object.\<close>

fun primitive :: "jsval \<Rightarrow> bool" where
  "primitive (Object r) = False"
| "primitive v = True"

text \<open>A finite number or the no-value marker \<open>null\<close>.\<close>

fun finite_or_no_value :: "jsval \<Rightarrow> bool" where
  "finite_or_no_value Null = True"
| "finite_or_no_value (Num x) = is_finite x"
| "finite_or_no_value v = False"

text \<open>A field that is missing (absent or \<open>null\<close>) or the empty string.\<close>

fun missing_or_empty :: "jsval \<Rightarrow> bool" where
  "missing_or_empty Undefined = True"
| "missing_or_empty Null = True"
| "missing_or_empty (Str s) = (s = [])"
| "missing_or_empty v = False"

text \<open>A field that is given: a string that is not empty, or a number that is
  neither zero nor NaN.\<close>

fun given :: "jsval \<Rightarrow> bool" where
  "given (Str s) = (s \<noteq> [])"
| "given (Num NaN) = False"
| "given (Num (Dec m e)) = (toDouble m e \<noteq> Dec 0 0)"
| "given (Num x) = True"
| "given v = False"

definition decimal_fields :: "string list" where
  "decimal_fields = [''weight'', ''freight'', ''diesel'', ''total_adv'', ''balance'', ''margin'']"

definition bilty_fields :: "string list" where
  "bilty_fields = [''bilty_sl_no'', ''lr_no'', ''bill_no'', ''bill_date'', ''truck_no'',
     ''destination'', ''weight'', ''freight'', ''diesel'', ''total_adv'', ''balance'',
     ''pump_name'', ''payment_officer'', ''damage_if_any'', ''margin'']"

text \<open>A request whose six decimal fields are absent or primitive, as the record
  of the specification types them.\<close>

definition primitive_decimals :: "body \<Rightarrow> bool" where
  "primitive_decimals b = list_all (\<lambda>k. primitive (get_prop b k)) decimal_fields"

text \<open>
  The columns of a row against a request: each of the six decimal columns is what
  \<open>parseNumeric\<close> returns for the field, each other column is the field as bound.
\<close>

definition row_matches :: "bilty_row \<Rightarrow> body \<Rightarrow> bool" where
  "row_matches r b \<longleftrightarrow>
       parseNumeric (get_prop b ''weight'') = Inr (weight r)
     \<and> parseNumeric (get_prop b ''freight'') = Inr (freight r)
     \<and> parseNumeric (get_prop b ''diesel'') = Inr (diesel r)
     \<and> parseNumeric (get_prop b ''total_adv'') = Inr (total_adv r)
     \<and> parseNumeric (get_prop b ''balance'') = Inr (balance r)
     \<and> parseNumeric (get_prop b ''margin'') = Inr (margin r)
     \<and> bilty_sl_no r = prepareValue (get_prop b ''bilty_sl_no'')
     \<and> lr_no r = prepareValue (get_prop b ''lr_no'')
     \<and> bill_no r = prepareValue (get_prop b ''bill_no'')
     \<and> bill_date r = prepareValue (get_prop b ''bill_date'')
     \<and> truck_no r = prepareValue (get_prop b ''truck_no'')
     \<and> destination r = prepareValue (get_prop b ''destination'')
     \<and> pump_name r = prepareValue (get_prop b ''pump_name'')
     \<and> payment_officer r = prepareValue (get_prop b ''payment_officer'')
     \<and> damage_if_any r = prepareValue (get_prop b ''damage_if_any'')"

section \<open>Example requests and stores\<close>

definition blank_row :: "int \<Rightarrow> string \<Rightarrow> jsval \<Rightarrow> bilty_row" where
  "blank_row i sl w =
     \<lparr>row_id = i, bilty_sl_no = Str sl, lr_no = Null, bill_no = Null, bill_date = Null,
      truck_no = Null, destination = Null, weight = w, freight = Null, diesel = Null,
      total_adv = Null, balance = Null, pump_name = Null, payment_officer = Null,
      damage_if_any = Null, margin = Null\<rparr>"

text \<open>A table of two rows, B1 with id 1 and B2 with id 2.\<close>

definition two_rows :: pg_state where
  "two_rows = \<lparr>bilty_data = [blank_row 1 ''B1'' (Num (Dec 125 (- 1))),
                              blank_row 2 ''B2'' (Num (Dec 7 0))], id_seq = 3\<rparr>"

text \<open>A store that cannot be reached: every statement throws.\<close>

definition store_down :: "unit pool_query" where
  "store_down q s = (Inl \<lparr>code = Some ''ECONNREFUSED'', column = None,
                          message = ''connect ECONNREFUSED''\<rparr>, s)"

definition req_B1 :: body where
  "req_B1 = [''bilty_sl_no'' \<mapsto> Str ''B1'', ''weight'' \<mapsto> Str ''12.5'']"

definition values_B1 :: "jsval list" where
  "values_B1 = [Str ''B1'', Undefined, Undefined, Undefined, Undefined, Undefined,
     Num (Dec 125 (- 1)), Null, Null, Null, Null, Undefined, Undefined, Undefined, Null]"

definition req_B1_5 :: body where
  "req_B1_5 = [''bilty_sl_no'' \<mapsto> Str ''B1'', ''weight'' \<mapsto> Num (Dec 5 0)]"

definition values_B1_5 :: "jsval list" where
  "values_B1_5 = [Str ''B1'', Undefined, Undefined, Undefined, Undefined, Undefined,
     Num (Dec 5 0), Null, Null, Null, Null, Undefined, Undefined, Undefined, Null]"

definition req_weight_3 :: body where
  "req_weight_3 = [''weight'' \<mapsto> Str ''3'', ''pump_name'' \<mapsto> Str ''HP'']"

definition values_weight_3 :: "jsval list" where
  "values_weight_3 = [Undefined, Undefined, Undefined, Undefined, Undefined, Undefined,
     Num (Dec 3 0), Null, Null, Null, Null, Str ''HP'', Undefined, Undefined, Null]"

definition row_2_updated :: bilty_row where
  "row_2_updated =
     \<lparr>row_id = 2, bilty_sl_no = Null, lr_no = Null, bill_no = Null, bill_date = Null,
      truck_no = Null, destination = Null, weight = Num (Dec 3 0), freight = Null, diesel = Null,
      total_adv = Null, balance = Null, pump_name = Str ''HP'', payment_officer = Null,
      damage_if_any = Null, margin = Null\<rparr>"

text \<open>A request with a field that is not a column and a freight that is not numeric.\<close>

definition req_B3 :: body where
  "req_B3 = [''bilty_sl_no'' \<mapsto> Str ''B3'', ''weight'' \<mapsto> Str ''12.5'',
      ''truck_no'' \<mapsto> Str ''WB-01'', ''freight'' \<mapsto> Str ''abc'', ''color'' \<mapsto> Str ''red'']"

definition values_B3 :: "jsval list" where
  "values_B3 = [Str ''B3'', Undefined, Undefined, Undefined, Str ''WB-01'', Undefined,
     Num (Dec 125 (- 1)), Null, Null, Null, Null, Undefined, Undefined, Undefined, Null]"

definition row_B3 :: bilty_row where
  "row_B3 = (blank_row 3 ''B3'' (Num (Dec 125 (- 1))))\<lparr>truck_no := Str ''WB-01''\<rparr>"

definition req_inf :: body where
  "req_inf = [''weight'' \<mapsto> Str ''Infinity'']"

definition values_inf :: "jsval list" where
  "values_inf = [Undefined, Undefined, Undefined, Undefined, Undefined, Undefined,
     Num PosInf, Null, Null, Null, Null, Undefined, Undefined, Undefined, Null]"

text \<open>Row 2 with a weight and every other column NULL.\<close>

definition row_2_weight :: "jsval \<Rightarrow> bilty_row" where
  "row_2_weight w =
     \<lparr>row_id = 2, bilty_sl_no = Null, lr_no = Null, bill_no = Null, bill_date = Null,
      truck_no = Null, destination = Null, weight = w, freight = Null, diesel = Null,
      total_adv = Null, balance = Null, pump_name = Null, payment_officer = Null,
      damage_if_any = Null, margin = Null\<rparr>"

definition req_abc :: body where
  "req_abc = [''bilty_sl_no'' \<mapsto> Str ''B1'', ''weight'' \<mapsto> Str ''abc'']"

definition values_abc :: "jsval list" where
  "values_abc = [Str ''B1'', Undefined, Undefined, Undefined, Undefined, Undefined,
     Null, Null, Null, Null, Null, Undefined, Undefined, Undefined, Null]"

text \<open>Requests whose weight is the text \<open>Infinity\<close>.\<close>

definition req_B9_inf :: body where
  "req_B9_inf = [''bilty_sl_no'' \<mapsto> Str ''B9'', ''weight'' \<mapsto> Str ''Infinity'']"

definition values_B9_inf :: "jsval list" where
  "values_B9_inf = [Str ''B9'', Undefined, Undefined, Undefined, Undefined, Undefined,
     Num PosInf, Null, Null, Null, Null, Undefined, Undefined, Undefined, Null]"

section \<open>Numeric coercion\<close>

lemmas parse_defs = parseNumeric_def parseFloat_def StrDecimalLiteral_def
  StrUnsignedDecimalLiteral_def isWhiteSpace_def isDigit_def int_of_digits_def digit_val_def
  toDouble_def pow10_def isNaN_def Let_def

lemma toDouble_not_NaN: "toDouble m e \<noteq> NaN"
  by (simp add: toDouble_def Let_def)

lemma StrUnsignedDecimalLiteral_not_NaN: "StrUnsignedDecimalLiteral neg s \<noteq> Some NaN"
  by (simp add: StrUnsignedDecimalLiteral_def Let_def toDouble_not_NaN)

lemma StrDecimalLiteral_not_NaN: "StrDecimalLiteral s \<noteq> Some NaN"
  by (simp add: StrDecimalLiteral_def StrUnsignedDecimalLiteral_not_NaN split: list.split)

lemma ToString_primitive: "primitive v \<Longrightarrow> \<exists>s. ToString v = Inr s"
  by (cases v) auto

lemma parseNumeric_primitive_Inr: "primitive v \<Longrightarrow> \<exists>r. parseNumeric v = Inr r"
  using ToString_primitive [of v]
  by (auto simp: parseNumeric_def parseFloat_def split: option.splits)

lemma parseNumeric_Inr_prepare: "parseNumeric v = Inr r \<Longrightarrow> prepareValue r = r"
  by (auto simp: parseNumeric_def prepareValue_def split: sum.splits if_splits)

lemma Number_toString_5: "Number_toString (Dec 5 0) = ''5''"
  by (simp add: toDouble_def pow10_def Number_toString_pos_def Let_def digits.simps
        digit_char_def char_of_def)

lemma JSON_value_cases:
  "JSON_value v = (if (\<exists>x. v = Num x \<and> \<not> is_finite x) then Null else v)"
  by (cases v) auto

lemma row_id_JSON_row: "row_id (JSON_row r) = row_id r"
  by (simp add: JSON_row_def)

lemma JSON_stringify_Row: "map JSON_stringify (map Row rs) = map Row (map JSON_row rs)"
  by (induction rs) auto

text \<open>
  C2, as amended. For every primitive input (absent, \<open>null\<close>, a boolean, a number, a
  string) \<open>parseNumeric\<close> returns without raising, and its result is either a number
  that is not NaN (finite, or an infinity) or the no-value marker \<open>null\<close>; it is the
  marker exactly when the input, written as a string and with leading white space
  dropped, does not begin with a decimal literal.
\<close>

theorem parseNumeric_primitive:
  assumes "primitive v"
  shows "\<exists>s res. ToString v = Inr s \<and> parseNumeric v = Inr res
           \<and> (res = Null \<or> (\<exists>x. res = Num x \<and> x \<noteq> NaN))
           \<and> (res = Null \<longleftrightarrow> StrDecimalLiteral (dropWhile isWhiteSpace s) = None)"
proof -
  from assms obtain s where s: "ToString v = Inr s"
    using ToString_primitive by blast
  show ?thesis
  proof (cases "StrDecimalLiteral (dropWhile isWhiteSpace s)")
    case None
    with s show ?thesis by (simp add: parseNumeric_def parseFloat_def isNaN_def)
  next
    case (Some x)
    then have "x \<noteq> NaN" using StrDecimalLiteral_not_NaN by metis
    with s Some show ?thesis by (simp add: parseNumeric_def parseFloat_def isNaN_def)
  qed
qed

text \<open>The text \<open>12abc\<close> begins with a decimal literal and is coerced to 12.\<close>

theorem parseNumeric_primitive_witness:
  "primitive (Str ''12abc'') \<and> parseNumeric (Str ''12abc'') = Inr (Num (Dec 12 0))
   \<and> StrDecimalLiteral (dropWhile isWhiteSpace ''12abc'') \<noteq> None"
  using parseNumeric_primitive [of "Str ''12abc''"] by (simp add: parse_defs)

text \<open>
  C2 as stated fails: the text \<open>Infinity\<close> is coerced to the number Infinity, which
  is neither a finite number nor the no-value marker.
\<close>

theorem parseNumeric_Infinity_counterexample:
  "parseNumeric (Str ''Infinity'') = Inr (Num PosInf) \<and> \<not> finite_or_no_value (Num PosInf)"
  by (simp add: parse_defs)

section \<open>The values of a request\<close>

lemma sequence_sum_Cons_Inr:
  "sequence_sum (x # xs) = Inr vs \<longleftrightarrow> (\<exists>v ws. x = Inr v \<and> sequence_sum xs = Inr ws \<and> vs = v # ws)"
  by (auto split: sum.splits)

lemma bilty_values_Inr:
  assumes "bilty_values b = Inr vs"
  shows "\<exists>w f d t bl m.
      parseNumeric (get_prop b ''weight'') = Inr w \<and> parseNumeric (get_prop b ''freight'') = Inr f
    \<and> parseNumeric (get_prop b ''diesel'') = Inr d \<and> parseNumeric (get_prop b ''total_adv'') = Inr t
    \<and> parseNumeric (get_prop b ''balance'') = Inr bl \<and> parseNumeric (get_prop b ''margin'') = Inr m
    \<and> vs = [get_prop b ''bilty_sl_no'', get_prop b ''lr_no'', get_prop b ''bill_no'',
             get_prop b ''bill_date'', get_prop b ''truck_no'', get_prop b ''destination'',
             w, f, d, t, bl, get_prop b ''pump_name'', get_prop b ''payment_officer'',
             get_prop b ''damage_if_any'', m]"
  using assms unfolding bilty_values_def sequence_sum_Cons_Inr by auto

lemma bilty_values_primitive:
  assumes "primitive_decimals b"
  shows "\<exists>vs. bilty_values b = Inr vs"
proof -
  from assms have p: "primitive (get_prop b ''weight'')" "primitive (get_prop b ''freight'')"
    "primitive (get_prop b ''diesel'')" "primitive (get_prop b ''total_adv'')"
    "primitive (get_prop b ''balance'')" "primitive (get_prop b ''margin'')"
    by (simp_all add: primitive_decimals_def decimal_fields_def)
  from p(1) obtain w where w: "parseNumeric (get_prop b ''weight'') = Inr w"
    using parseNumeric_primitive_Inr by blast
  from p(2) obtain f where f: "parseNumeric (get_prop b ''freight'') = Inr f"
    using parseNumeric_primitive_Inr by blast
  from p(3) obtain d where d: "parseNumeric (get_prop b ''diesel'') = Inr d"
    using parseNumeric_primitive_Inr by blast
  from p(4) obtain t where t: "parseNumeric (get_prop b ''total_adv'') = Inr t"
    using parseNumeric_primitive_Inr by blast
  from p(5) obtain bl where bl: "parseNumeric (get_prop b ''balance'') = Inr bl"
    using parseNumeric_primitive_Inr by blast
  from p(6) obtain m where m: "parseNumeric (get_prop b ''margin'') = Inr m"
    using parseNumeric_primitive_Inr by blast
  show ?thesis by (simp add: bilty_values_def w f d t bl m)
qed

lemma row_of_values_matches:
  assumes "bilty_values b = Inr vs"
  shows "\<exists>r. row_of i vs = Some r \<and> row_id r = i \<and> row_matches r b"
proof -
  from bilty_values_Inr [OF assms] obtain w f d t bl m where
    p: "parseNumeric (get_prop b ''weight'') = Inr w" "parseNumeric (get_prop b ''freight'') = Inr f"
       "parseNumeric (get_prop b ''diesel'') = Inr d" "parseNumeric (get_prop b ''total_adv'') = Inr t"
       "parseNumeric (get_prop b ''balance'') = Inr bl" "parseNumeric (get_prop b ''margin'') = Inr m"
    and vs: "vs = [get_prop b ''bilty_sl_no'', get_prop b ''lr_no'', get_prop b ''bill_no'',
             get_prop b ''bill_date'', get_prop b ''truck_no'', get_prop b ''destination'',
             w, f, d, t, bl, get_prop b ''pump_name'', get_prop b ''payment_officer'',
             get_prop b ''damage_if_any'', m]"
    by blast
  note q = p [THEN parseNumeric_Inr_prepare]
  show ?thesis
    by (simp add: vs row_of_def row_matches_def p q)
qed

lemma bilty_values_cong:
  assumes "\<forall>k \<in> set bilty_fields. b' k = b k"
  shows "bilty_values b' = bilty_values b"
  using assms by (simp add: bilty_values_def bilty_fields_def get_prop_def)

lemma bilty_values_B1: "bilty_values req_B1 = Inr values_B1"
  by (simp add: bilty_values_def get_prop_def parse_defs req_B1_def values_B1_def)

lemma bilty_values_B1_5: "bilty_values req_B1_5 = Inr values_B1_5"
  by (simp add: bilty_values_def get_prop_def parse_defs Number_toString_5
        req_B1_5_def values_B1_5_def del: Number_toString.simps)

lemma bilty_values_weight_3: "bilty_values req_weight_3 = Inr values_weight_3"
  by (simp add: bilty_values_def get_prop_def parse_defs req_weight_3_def values_weight_3_def)

lemma bilty_values_B3: "bilty_values req_B3 = Inr values_B3"
  by (simp add: bilty_values_def get_prop_def parse_defs req_B3_def values_B3_def)

lemma bilty_values_abc: "bilty_values req_abc = Inr values_abc"
  by (simp add: bilty_values_def get_prop_def parse_defs req_abc_def values_abc_def)

lemma primitive_decimals_weight_3: "primitive_decimals req_weight_3"
  by (simp add: primitive_decimals_def decimal_fields_def req_weight_3_def get_prop_def)

section \<open>The store\<close>

lemma pg_int4_in_2: "pg_int4_in ''2'' = Inr 2"
  by (simp add: pg_int4_in_def isspace_def isDigit_def int_of_digits_def digit_val_def)

lemma pg_int4_in_7: "pg_int4_in ''7'' = Inr 7"
  by (simp add: pg_int4_in_def isspace_def isDigit_def int_of_digits_def digit_val_def)

lemma pg_int4_in_abc: "pg_int4_in ''abc'' = Inl (invalid_text_representation ''abc'')"
  by (simp add: pg_int4_in_def isspace_def isDigit_def int_of_digits_def digit_val_def)

lemma filter_id_empty_iff: "filter (\<lambda>x. row_id x = n) xs = [] \<longleftrightarrow> n \<notin> row_id ` set xs"
  by (auto simp: filter_empty_conv)

lemma filter_other_ids: "n \<notin> row_id ` set xs \<Longrightarrow> filter (\<lambda>x. row_id x \<noteq> n) xs = xs"
  by (induction xs) auto

lemma two_rows_has_2: "2 \<in> row_id ` set (bilty_data two_rows)"
  by (simp add: two_rows_def blank_row_def)




lemma JSON_row_B3: "JSON_row row_B3 = row_B3"
  by (simp add: JSON_row_def row_B3_def blank_row_def toDouble_def pow10_def)

lemma JSON_row_2_updated: "JSON_row row_2_updated = row_2_updated"
  by (simp add: JSON_row_def row_2_updated_def toDouble_def pow10_def)

lemma JSON_row_2_inf: "JSON_row (row_2_weight (Num PosInf)) = row_2_weight Null"
  by (simp add: JSON_row_def row_2_weight_def)

lemma JSON_row_B9_inf: "JSON_row (blank_row 1 ''B9'' (Num PosInf)) = blank_row 1 ''B9'' Null"
  by (simp add: JSON_row_def blank_row_def)

lemma bilty_values_B9_inf: "bilty_values req_B9_inf = Inr values_B9_inf"
  by (simp add: bilty_values_def get_prop_def parse_defs req_B9_inf_def values_B9_inf_def)

lemma bilty_values_inf: "bilty_values req_inf = Inr values_inf"
  by (simp add: bilty_values_def get_prop_def parse_defs req_inf_def values_inf_def)

lemma insert_B9_inf_empty:
  "pg_query (Insert values_B9_inf) pg_empty =
     (Inr \<lparr>rows = [Row (blank_row 1 ''B9'' (Num PosInf))], rowCount = 1\<rparr>,
      \<lparr>bilty_data = [blank_row 1 ''B9'' (Num PosInf)], id_seq = 2\<rparr>)"
  by (simp add: pg_insert_def row_of_def prepareValue_def pg_empty_def blank_row_def
        values_B9_inf_def)

lemma pg_update_valid:
  assumes "pg_int4_in path_id = Inr n" and "row_of n vs = Some r"
  shows "pg_update (vs @ [Str path_id]) st =
     (if filter (\<lambda>x. row_id x = n) (bilty_data st) = [] then (Inr \<lparr>rows = [], rowCount = 0\<rparr>, st)
      else if weight r = Null then (Inl (not_null_violation ''weight''), st)
      else if bilty_sl_no r \<noteq> Null \<and>
              (\<exists>x \<in> set (bilty_data st). row_id x \<noteq> n \<and> bilty_sl_no x = bilty_sl_no r)
      then (Inl unique_violation, st)
      else (Inr \<lparr>rows = map (\<lambda>x. Row r) (filter (\<lambda>x. row_id x = n) (bilty_data st)),
                 rowCount = length (filter (\<lambda>x. row_id x = n) (bilty_data st))\<rparr>,
            st\<lparr>bilty_data := map (\<lambda>x. if row_id x = n then r else x) (bilty_data st)\<rparr>))"
  using assms by (simp add: pg_update_def Let_def)

lemma pg_update_invalid:
  assumes "pg_int4_in path_id = Inl err"
  shows "pg_update (vs @ [Str path_id]) st = (Inl err, st)"
  using assms by (simp add: pg_update_def)

lemma pg_delete_valid:
  assumes "pg_int4_in path_id = Inr n"
  shows "pg_delete [Str path_id] st =
     (Inr \<lparr>rows = map (\<lambda>x. IdRow (row_id x)) (filter (\<lambda>x. row_id x = n) (bilty_data st)),
           rowCount = length (filter (\<lambda>x. row_id x = n) (bilty_data st))\<rparr>,
      st\<lparr>bilty_data := filter (\<lambda>x. row_id x \<noteq> n) (bilty_data st)\<rparr>)"
  using assms by (simp add: pg_delete_def Let_def)


lemma insert_B1_two_rows:
  "pg_query (Insert values_B1) two_rows = (Inl unique_violation, two_rows\<lparr>id_seq := 4\<rparr>)"
  by (simp add: pg_insert_def row_of_def prepareValue_def two_rows_def blank_row_def values_B1_def)

lemma insert_abc_empty:
  "pg_query (Insert values_abc) pg_empty =
     (Inl (not_null_violation ''weight''), pg_empty\<lparr>id_seq := 2\<rparr>)"
  by (simp add: pg_insert_def row_of_def prepareValue_def pg_empty_def values_abc_def)

lemma insert_B3_two_rows:
  "pg_query (Insert values_B3) two_rows =
     (Inr \<lparr>rows = [Row row_B3], rowCount = 1\<rparr>,
      \<lparr>bilty_data = bilty_data two_rows @ [row_B3], id_seq = 4\<rparr>)"
  by (simp add: pg_insert_def row_of_def prepareValue_def two_rows_def blank_row_def values_B3_def
        row_B3_def)

lemma update_2_B1_two_rows:
  "pg_query (Update (values_B1_5 @ [Str ''2''])) two_rows = (Inl unique_violation, two_rows)"
  by (simp add: pg_update_def pg_int4_in_2 row_of_def prepareValue_def two_rows_def blank_row_def
        values_B1_5_def)

lemma update_2_inf:
  "pg_query (Update (values_inf @ [Str ''2''])) two_rows =
     (Inr \<lparr>rows = [Row (row_2_weight (Num PosInf))], rowCount = 1\<rparr>,
      \<lparr>bilty_data = [blank_row 1 ''B1'' (Num (Dec 125 (- 1))), row_2_weight (Num PosInf)],
       id_seq = 3\<rparr>)"
  by (simp add: pg_update_def pg_int4_in_2 row_of_def prepareValue_def two_rows_def blank_row_def
        values_inf_def row_2_weight_def)

lemma update_2_weight_3:
  "pg_query (Update (values_weight_3 @ [Str ''2''])) two_rows =
     (Inr \<lparr>rows = [Row row_2_updated], rowCount = 1\<rparr>,
      \<lparr>bilty_data = [blank_row 1 ''B1'' (Num (Dec 125 (- 1))), row_2_updated], id_seq = 3\<rparr>)"
  by (simp add: pg_update_def pg_int4_in_2 row_of_def prepareValue_def two_rows_def blank_row_def
        values_weight_3_def row_2_updated_def)

section \<open>Create\<close>

lemma missing_or_empty_falsy: "missing_or_empty v \<Longrightarrow> \<not> ToBoolean v"
  by (cases v rule: missing_or_empty.cases) auto

lemma given_truthy: "given v \<Longrightarrow> ToBoolean v"
  by (cases v rule: given.cases) auto

lemma post_catch_not_required: "post_catch err \<noteq> required_response"
  by (simp add: post_catch_def required_response_def)

lemma status_201_not_required: "\<lparr>status = 201, payload = p\<rparr> \<noteq> required_response"
  by (simp add: required_response_def)

lemma post_bilty_cong:
  assumes "\<forall>k \<in> set bilty_fields. b' k = b k"
  shows "post_bilty query b' st = post_bilty query b st"
proof -
  have "get_prop b' ''bilty_sl_no'' = get_prop b ''bilty_sl_no''"
    and "get_prop b' ''weight'' = get_prop b ''weight''"
    using assms by (simp_all add: bilty_fields_def get_prop_def)
  then show ?thesis
    by (simp add: post_bilty_def bilty_values_cong [OF assms])
qed

text \<open>
  C1, as amended. Over any store: when \<open>bilty_sl_no\<close> or \<open>weight\<close> is missing
  (absent or \<open>null\<close>) or the empty string, Create answers HTTP 400 with the message
  that both fields are required and sends no statement, so the store is as before.
  The test is made on the raw input, before coercion: when both fields are given,
  each as a non-empty string (numeric or not) or as a number other than zero, the
  request passes the gate. A request that has passed can still be answered HTTP 400,
  when the store reports a not-null violation.
\<close>

theorem post_bilty_required_gate:
  fixes query :: "'s pool_query"
  shows "(missing_or_empty (get_prop b ''bilty_sl_no'') \<or> missing_or_empty (get_prop b ''weight'')
            \<longrightarrow> post_bilty query b st = (required_response, st))
       \<and> (given (get_prop b ''bilty_sl_no'') \<and> given (get_prop b ''weight'')
            \<longrightarrow> fst (post_bilty query b st) \<noteq> required_response)
       \<and> (\<forall>s. s \<noteq> [] \<longrightarrow> given (Str s))"
proof (intro conjI impI allI)
  assume "missing_or_empty (get_prop b ''bilty_sl_no'') \<or> missing_or_empty (get_prop b ''weight'')"
  then have "\<not> ToBoolean (get_prop b ''bilty_sl_no'') \<or> \<not> ToBoolean (get_prop b ''weight'')"
    using missing_or_empty_falsy by blast
  then show "post_bilty query b st = (required_response, st)"
    by (simp add: post_bilty_def)
next
  assume "given (get_prop b ''bilty_sl_no'') \<and> given (get_prop b ''weight'')"
  then have "ToBoolean (get_prop b ''bilty_sl_no'')" and "ToBoolean (get_prop b ''weight'')"
    using given_truthy by blast+
  then show "fst (post_bilty query b st) \<noteq> required_response"
    by (auto simp: post_bilty_def post_catch_not_required status_201_not_required
             split: sum.splits prod.splits)
next
  fix s :: string assume "s \<noteq> []"
  then show "given (Str s)" by simp
qed

text \<open>A weight that is not numeric passes the gate; a request without weight does not.\<close>

theorem post_bilty_required_gate_witness:
  "given (get_prop req_abc ''bilty_sl_no'') \<and> given (get_prop req_abc ''weight'')
   \<and> fst (post_bilty pg_query req_abc pg_empty) \<noteq> required_response
   \<and> missing_or_empty (get_prop [''bilty_sl_no'' \<mapsto> Str ''B1''] ''weight'')
   \<and> post_bilty pg_query [''bilty_sl_no'' \<mapsto> Str ''B1''] pg_empty = (required_response, pg_empty)"
  using post_bilty_required_gate [of req_abc pg_query pg_empty]
        post_bilty_required_gate [of "[''bilty_sl_no'' \<mapsto> Str ''B1'']" pg_query pg_empty]
  by (simp add: get_prop_def req_abc_def)

text \<open>
  C1 as stated fails: a weight that is text without a number is neither missing nor
  empty; it passes the gate, is coerced to \<open>null\<close>, and the not-null constraint of
  the store makes the answer HTTP 400.
\<close>

theorem post_bilty_400_counterexample:
  "fst (post_bilty pg_query req_abc pg_empty) =
       \<lparr>status = 400, payload = JsonError ''Missing required data for column: weight''\<rparr>
   \<and> \<not> missing_or_empty (get_prop req_abc ''bilty_sl_no'')
   \<and> \<not> missing_or_empty (get_prop req_abc ''weight'')"
proof -
  have g: "ToBoolean (get_prop req_abc ''bilty_sl_no'')" "ToBoolean (get_prop req_abc ''weight'')"
    by (simp_all add: get_prop_def req_abc_def)
  have a: "fst (post_bilty pg_query req_abc pg_empty) =
       \<lparr>status = 400, payload = JsonError ''Missing required data for column: weight''\<rparr>"
    by (simp add: post_bilty_def g bilty_values_abc insert_abc_empty [simplified] post_catch_def
          not_null_violation_def)
  show ?thesis
    using a by (simp add: get_prop_def req_abc_def)
qed

text \<open>
  C3. When Create has passed the gate and the store rejects the INSERT, the fault
  decides the answer: code 23505 (a uniqueness violation, which the store raises for
  \<open>bilty_sl_no\<close>) gives HTTP 409 with the message that the Bilty SL No. already
  exists; code 23502 (a not-null violation) gives HTTP 400 with a message that names
  the column of the fault; any other fault gives HTTP 500 with the text of the fault.
\<close>

theorem post_bilty_store_fault:
  fixes query :: "'s pool_query"
  assumes "ToBoolean (get_prop b ''bilty_sl_no'')" and "ToBoolean (get_prop b ''weight'')"
    and "bilty_values b = Inr vs"
    and "query (Insert vs) st = (Inl err, st')"
  shows "(code err = Some ''23505'' \<longrightarrow>
            fst (post_bilty query b st) = \<lparr>status = 409, payload =
              JsonError ''Bilty SL No. already exists. Please use a unique number.''\<rparr>)
       \<and> (code err = Some ''23502'' \<longrightarrow> (\<forall>c. column err = Some c \<longrightarrow>
            fst (post_bilty query b st) = \<lparr>status = 400, payload =
              JsonError (''Missing required data for column: '' @ c)\<rparr>))
       \<and> (code err \<noteq> Some ''23505'' \<and> code err \<noteq> Some ''23502'' \<longrightarrow>
            fst (post_bilty query b st) = \<lparr>status = 500, payload =
              JsonError (''Server error: '' @ message err)\<rparr>)"
  using assms by (simp add: post_bilty_def post_catch_def)

text \<open>
  The three branches: a second Create of B1 on a table that holds B1 (the store
  raises 23505, the answer is 409); a Create whose weight is coerced to \<open>null\<close>
  (the store raises 23502 for column \<open>weight\<close>, the answer is 400); a Create on a
  store that cannot be reached (the answer is 500 with the text of the fault).
\<close>

theorem post_bilty_store_fault_witness:
  "ToBoolean (get_prop req_B1 ''bilty_sl_no'') \<and> ToBoolean (get_prop req_B1 ''weight'')
   \<and> bilty_values req_B1 = Inr values_B1
   \<and> pg_query (Insert values_B1) two_rows = (Inl unique_violation, two_rows\<lparr>id_seq := 4\<rparr>)
   \<and> code unique_violation = Some ''23505''
   \<and> fst (post_bilty pg_query req_B1 two_rows)
      = \<lparr>status = 409, payload =
              JsonError ''Bilty SL No. already exists. Please use a unique number.''\<rparr>
   \<and> pg_query (Insert values_abc) pg_empty =
       (Inl (not_null_violation ''weight''), pg_empty\<lparr>id_seq := 2\<rparr>)
   \<and> fst (post_bilty pg_query req_abc pg_empty)
      = \<lparr>status = 400, payload = JsonError ''Missing required data for column: weight''\<rparr>
   \<and> fst (post_bilty store_down req_B1 ())
      = \<lparr>status = 500, payload = JsonError ''Server error: connect ECONNREFUSED''\<rparr>"
proof -
  have g1: "ToBoolean (get_prop req_B1 ''bilty_sl_no'')" by (simp add: get_prop_def req_B1_def)
  have g2: "ToBoolean (get_prop req_B1 ''weight'')" by (simp add: get_prop_def req_B1_def)
  have h1: "ToBoolean (get_prop req_abc ''bilty_sl_no'')" by (simp add: get_prop_def req_abc_def)
  have h2: "ToBoolean (get_prop req_abc ''weight'')" by (simp add: get_prop_def req_abc_def)
  have c: "code unique_violation = Some ''23505''" by (simp add: unique_violation_def)
  have d: "store_down (Insert values_B1) () =
      (Inl \<lparr>code = Some ''ECONNREFUSED'', column = None, message = ''connect ECONNREFUSED''\<rparr>, ())"
    by (simp add: store_down_def)
  from post_bilty_store_fault [where b = req_B1 and query = pg_query,
      OF g1 g2 bilty_values_B1 insert_B1_two_rows]
  have r1: "fst (post_bilty pg_query req_B1 two_rows)
      = \<lparr>status = 409, payload =
              JsonError ''Bilty SL No. already exists. Please use a unique number.''\<rparr>"
    by (simp add: unique_violation_def)
  from post_bilty_store_fault [where b = req_abc and query = pg_query,
      OF h1 h2 bilty_values_abc insert_abc_empty]
  have r2: "fst (post_bilty pg_query req_abc pg_empty)
      = \<lparr>status = 400, payload = JsonError ''Missing required data for column: weight''\<rparr>"
    by (simp add: not_null_violation_def)
  from post_bilty_store_fault [where b = req_B1 and query = store_down,
      OF g1 g2 bilty_values_B1 d]
  have r3: "fst (post_bilty store_down req_B1 ())
      = \<lparr>status = 500, payload = JsonError ''Server error: connect ECONNREFUSED''\<rparr>"
    by simp
  from g1 g2 c bilty_values_B1 insert_B1_two_rows insert_abc_empty r1 r2 r3
  show ?thesis by blast
qed

text \<open>
  C4, as amended. When Create has passed the gate and the store accepts the INSERT,
  the table has exactly one more row; its id is the one the sequence of the store
  assigns; each of its six decimal columns is what \<open>parseNumeric\<close> returns for the
  raw field and each other column is the field as given (an absent field is stored
  as NULL); fields of the request that are not columns do not change the outcome.
  The answer is HTTP 201 with that row as JSON, id included: every column as it is
  persisted, except that a number that is not finite is written as \<open>null\<close>.
\<close>

theorem post_bilty_created:
  assumes "ToBoolean (get_prop b ''bilty_sl_no'')" and "ToBoolean (get_prop b ''weight'')"
    and "bilty_values b = Inr vs"
    and "pg_query (Insert vs) st = (Inr result, st')"
  shows "(\<exists>r. post_bilty pg_query b st =
                (\<lparr>status = 201, payload = JsonRow (Row (JSON_row r))\<rparr>, st')
            \<and> bilty_data st' = bilty_data st @ [r] \<and> row_id r = id_seq st \<and> row_matches r b
            \<and> row_id (JSON_row r) = row_id r)
       \<and> (\<forall>v. primitive v \<longrightarrow>
              JSON_value v = (if (\<exists>x. v = Num x \<and> \<not> is_finite x) then Null else v))
       \<and> (\<forall>v. v \<noteq> Undefined \<longrightarrow> prepareValue v = v)
       \<and> (\<forall>b'. (\<forall>k \<in> set bilty_fields. b' k = b k)
              \<longrightarrow> post_bilty pg_query b' st = post_bilty pg_query b st)"
proof (intro conjI allI impI)
  from row_of_values_matches [OF assms(3)] obtain r where
    r: "row_of (id_seq st) vs = Some r" "row_id r = id_seq st" "row_matches r b"
    by blast
  from assms(4) r(1) have res: "result = \<lparr>rows = [Row r], rowCount = 1\<rparr>"
    and st': "bilty_data st' = bilty_data st @ [r]"
    by (auto simp: pg_insert_def Let_def split: if_splits)
  have "post_bilty pg_query b st = (\<lparr>status = 201, payload = JsonRow (Row (JSON_row r))\<rparr>, st')"
    using assms by (simp add: post_bilty_def rows_0_def res)
  with st' r row_id_JSON_row show "\<exists>r. post_bilty pg_query b st =
        (\<lparr>status = 201, payload = JsonRow (Row (JSON_row r))\<rparr>, st')
      \<and> bilty_data st' = bilty_data st @ [r] \<and> row_id r = id_seq st \<and> row_matches r b
      \<and> row_id (JSON_row r) = row_id r"
    by blast
next
  fix v :: jsval assume "primitive v"
  show "JSON_value v = (if (\<exists>x. v = Num x \<and> \<not> is_finite x) then Null else v)"
    by (rule JSON_value_cases)
next
  fix v :: jsval assume "v \<noteq> Undefined"
  then show "prepareValue v = v" by (simp add: prepareValue_def)
next
  fix b' assume "\<forall>k \<in> set bilty_fields. b' k = b k"
  then show "post_bilty pg_query b' st = post_bilty pg_query b st" by (rule post_bilty_cong)
qed

text \<open>Create of B3 on the table of two rows: the new row has id 3, weight 12.5, no
  freight (the text \<open>abc\<close> is coerced to \<open>null\<close>), and no trace of the field
  \<open>color\<close>; the body of the answer is the row as it is persisted.\<close>

theorem post_bilty_created_witness:
  "ToBoolean (get_prop req_B3 ''bilty_sl_no'') \<and> ToBoolean (get_prop req_B3 ''weight'')
   \<and> bilty_values req_B3 = Inr values_B3
   \<and> post_bilty pg_query req_B3 two_rows =
       (\<lparr>status = 201, payload = JsonRow (Row row_B3)\<rparr>,
        \<lparr>bilty_data = bilty_data two_rows @ [row_B3], id_seq = 4\<rparr>)
   \<and> row_matches row_B3 req_B3"
proof -
  have g1: "ToBoolean (get_prop req_B3 ''bilty_sl_no'')" by (simp add: get_prop_def req_B3_def)
  have g2: "ToBoolean (get_prop req_B3 ''weight'')" by (simp add: get_prop_def req_B3_def)
  from post_bilty_created [where b = req_B3 and st = two_rows,
      OF g1 g2 bilty_values_B3 insert_B3_two_rows]
  obtain r where r: "post_bilty pg_query req_B3 two_rows =
       (\<lparr>status = 201, payload = JsonRow (Row (JSON_row r))\<rparr>,
        \<lparr>bilty_data = bilty_data two_rows @ [row_B3], id_seq = 4\<rparr>)"
     "bilty_data \<lparr>bilty_data = bilty_data two_rows @ [row_B3], id_seq = 4\<rparr> = bilty_data two_rows @ [r]"
     "row_matches r req_B3"
    by blast
  from r(2) have "r = row_B3" by simp
  with r g1 g2 bilty_values_B3 JSON_row_B3 show ?thesis by simp
qed

text \<open>
  C4 as stated fails: a Create whose weight is the text \<open>Infinity\<close> is accepted, the
  row is persisted with weight Infinity, and the body of the HTTP 201 answer has
  weight \<open>null\<close>: it does not carry the record as persisted.
\<close>

theorem post_bilty_Infinity_counterexample:
  "ToBoolean (get_prop req_B9_inf ''bilty_sl_no'') \<and> ToBoolean (get_prop req_B9_inf ''weight'')
   \<and> post_bilty pg_query req_B9_inf pg_empty =
       (\<lparr>status = 201, payload = JsonRow (Row (blank_row 1 ''B9'' Null))\<rparr>,
        \<lparr>bilty_data = [blank_row 1 ''B9'' (Num PosInf)], id_seq = 2\<rparr>)
   \<and> weight (blank_row 1 ''B9'' Null) \<noteq> weight (blank_row 1 ''B9'' (Num PosInf))"
proof -
  have g: "ToBoolean (get_prop req_B9_inf ''bilty_sl_no'')"
    "ToBoolean (get_prop req_B9_inf ''weight'')"
    by (simp_all add: get_prop_def req_B9_inf_def)
  have "post_bilty pg_query req_B9_inf pg_empty =
       (\<lparr>status = 201, payload = JsonRow (Row (blank_row 1 ''B9'' Null))\<rparr>,
        \<lparr>bilty_data = [blank_row 1 ''B9'' (Num PosInf)], id_seq = 2\<rparr>)"
    by (simp add: post_bilty_def g bilty_values_B9_inf insert_B9_inf_empty [simplified]
          rows_0_def JSON_row_B9_inf)
  with g show ?thesis by (simp add: blank_row_def)
qed

section \<open>Update\<close>

text \<open>
  C5, as amended. When the path identifier is that of a stored row and the store
  accepts the UPDATE, every one of the fifteen columns of that row is overwritten
  from the request: the six decimal columns with what \<open>parseNumeric\<close> returns, the
  others with the field as given, an omitted field with NULL; there is no test of
  presence. The answer is HTTP 200 with the updated row as JSON: every column as it
  now is, except that a number that is not finite is written as \<open>null\<close>.
\<close>

theorem put_bilty_updated:
  assumes "pg_int4_in path_id = Inr n"
    and "n \<in> row_id ` set (bilty_data st)"
    and "bilty_values b = Inr vs"
    and "pg_query (Update (vs @ [Str path_id])) st = (Inr result, st')"
  shows "(\<exists>r. put_bilty pg_query path_id b st =
                (\<lparr>status = 200, payload = JsonRow (Row (JSON_row r))\<rparr>, st')
           \<and> row_id r = n \<and> row_matches r b \<and> row_id (JSON_row r) = n
           \<and> st' = st\<lparr>bilty_data := map (\<lambda>x. if row_id x = n then r else x) (bilty_data st)\<rparr>)
       \<and> (\<forall>v. primitive v \<longrightarrow>
              JSON_value v = (if (\<exists>x. v = Num x \<and> \<not> is_finite x) then Null else v))"
proof (intro conjI allI)
  from row_of_values_matches [OF assms(3)] obtain r where
    r: "row_of n vs = Some r" "row_id r = n" "row_matches r b"
    by blast
  let ?hits = "filter (\<lambda>x. row_id x = n) (bilty_data st)"
  from assms(2) have hits: "?hits \<noteq> []"
    by (simp add: filter_id_empty_iff)
  then obtain h hs where hs: "?hits = h # hs"
    by (cases ?hits) auto
  from assms(4) hits have res: "result = \<lparr>rows = map (\<lambda>x. Row r) ?hits, rowCount = length ?hits\<rparr>"
    and st': "st' = st\<lparr>bilty_data := map (\<lambda>x. if row_id x = n then r else x) (bilty_data st)\<rparr>"
    by (auto simp: pg_update_valid [OF assms(1) r(1)] split: if_splits)
  have "put_bilty pg_query path_id b st =
      (\<lparr>status = 200, payload = JsonRow (Row (JSON_row r))\<rparr>, st')"
    using assms(3,4) by (simp add: put_bilty_def res hs rows_0_def)
  moreover have "row_id (JSON_row r) = n" using r(2) by (simp add: row_id_JSON_row)
  ultimately show "\<exists>r. put_bilty pg_query path_id b st =
        (\<lparr>status = 200, payload = JsonRow (Row (JSON_row r))\<rparr>, st')
      \<and> row_id r = n \<and> row_matches r b \<and> row_id (JSON_row r) = n
      \<and> st' = st\<lparr>bilty_data := map (\<lambda>x. if row_id x = n then r else x) (bilty_data st)\<rparr>"
    using r st' by blast
next
  fix v :: jsval
  show "primitive v \<longrightarrow>
      JSON_value v = (if (\<exists>x. v = Num x \<and> \<not> is_finite x) then Null else v)"
    by (simp add: JSON_value_cases)
qed

text \<open>An Update of row 2 that gives a weight and a pump name only: the row keeps
  its id, and its \<open>bilty_sl_no\<close> is now NULL.\<close>

theorem put_bilty_updated_witness:
  "pg_int4_in ''2'' = Inr 2 \<and> 2 \<in> row_id ` set (bilty_data two_rows)
   \<and> bilty_values req_weight_3 = Inr values_weight_3
   \<and> put_bilty pg_query ''2'' req_weight_3 two_rows =
       (\<lparr>status = 200, payload = JsonRow (Row row_2_updated)\<rparr>,
        \<lparr>bilty_data = [blank_row 1 ''B1'' (Num (Dec 125 (- 1))), row_2_updated], id_seq = 3\<rparr>)
   \<and> row_matches row_2_updated req_weight_3"
proof -
  from put_bilty_updated [OF pg_int4_in_2 two_rows_has_2 bilty_values_weight_3 update_2_weight_3]
  obtain r where r: "put_bilty pg_query ''2'' req_weight_3 two_rows =
       (\<lparr>status = 200, payload = JsonRow (Row (JSON_row r))\<rparr>,
        \<lparr>bilty_data = [blank_row 1 ''B1'' (Num (Dec 125 (- 1))), row_2_updated], id_seq = 3\<rparr>)"
     "row_matches r req_weight_3"
     "\<lparr>bilty_data = [blank_row 1 ''B1'' (Num (Dec 125 (- 1))), row_2_updated], id_seq = 3\<rparr>
       = two_rows\<lparr>bilty_data := map (\<lambda>x. if row_id x = 2 then r else x) (bilty_data two_rows)\<rparr>"
    by blast
  from r(3) have "r = row_2_updated"
    by (simp add: two_rows_def blank_row_def)
  with r two_rows_has_2 pg_int4_in_2 bilty_values_weight_3 JSON_row_2_updated
  show ?thesis by simp
qed

text \<open>
  C5 as stated fails twice. An Update of the stored row 2 that sets its
  \<open>bilty_sl_no\<close> to that of row 1 is rejected by the store: the answer is HTTP 500
  and no column of the row is overwritten. An Update of row 2 whose weight is the
  text \<open>Infinity\<close> is accepted: the row now has weight Infinity, and the body of the
  HTTP 200 answer has weight \<open>null\<close>.
\<close>

theorem put_bilty_counterexample:
  "pg_int4_in ''2'' = Inr 2 \<and> 2 \<in> row_id ` set (bilty_data two_rows)
   \<and> status (fst (put_bilty pg_query ''2'' req_B1_5 two_rows)) = 500
   \<and> snd (put_bilty pg_query ''2'' req_B1_5 two_rows) = two_rows
   \<and> put_bilty pg_query ''2'' req_inf two_rows =
       (\<lparr>status = 200, payload = JsonRow (Row (row_2_weight Null))\<rparr>,
        \<lparr>bilty_data = [blank_row 1 ''B1'' (Num (Dec 125 (- 1))), row_2_weight (Num PosInf)],
         id_seq = 3\<rparr>)
   \<and> weight (row_2_weight Null) \<noteq> weight (row_2_weight (Num PosInf))"
proof -
  have c: "put_bilty pg_query ''2'' req_B1_5 two_rows = (put_catch unique_violation, two_rows)"
    by (simp add: put_bilty_def bilty_values_B1_5 update_2_B1_two_rows [simplified])
  have i: "put_bilty pg_query ''2'' req_inf two_rows =
       (\<lparr>status = 200, payload = JsonRow (Row (row_2_weight Null))\<rparr>,
        \<lparr>bilty_data = [blank_row 1 ''B1'' (Num (Dec 125 (- 1))), row_2_weight (Num PosInf)],
         id_seq = 3\<rparr>)"
    by (simp add: put_bilty_def bilty_values_inf update_2_inf [simplified] rows_0_def
          JSON_row_2_inf)
  show ?thesis
    using pg_int4_in_2 two_rows_has_2 i by (simp add: c put_catch_def row_2_weight_def)
qed

text \<open>
  C6. An Update whose numeric path identifier is the id of no stored row is
  answered HTTP 404, and the store is as before.
\<close>

theorem put_bilty_not_found:
  assumes "pg_int4_in path_id = Inr n"
    and "n \<notin> row_id ` set (bilty_data st)"
    and "primitive_decimals b"
  shows "put_bilty pg_query path_id b st =
           (\<lparr>status = 404, payload = JsonError ''Bilty entry not found.''\<rparr>, st)"
proof -
  from assms(3) obtain vs where vs: "bilty_values b = Inr vs"
    using bilty_values_primitive by blast
  then obtain r where r: "row_of n vs = Some r"
    using row_of_values_matches by blast
  from assms(2) have "filter (\<lambda>x. row_id x = n) (bilty_data st) = []"
    by (simp add: filter_id_empty_iff)
  then have "pg_update (vs @ [Str path_id]) st = (Inr \<lparr>rows = [], rowCount = 0\<rparr>, st)"
    by (simp add: pg_update_valid [OF assms(1) r])
  then show ?thesis
    by (simp add: put_bilty_def vs not_found_response_def)
qed

text \<open>An Update of id 7 on the table of two rows.\<close>

theorem put_bilty_not_found_witness:
  "pg_int4_in ''7'' = Inr 7 \<and> 7 \<notin> row_id ` set (bilty_data two_rows)
   \<and> primitive_decimals req_weight_3
   \<and> put_bilty pg_query ''7'' req_weight_3 two_rows =
       (\<lparr>status = 404, payload = JsonError ''Bilty entry not found.''\<rparr>, two_rows)"
proof -
  have miss: "7 \<notin> row_id ` set (bilty_data two_rows)"
    by (simp add: two_rows_def blank_row_def)
  from put_bilty_not_found [OF pg_int4_in_7 miss primitive_decimals_weight_3]
    pg_int4_in_7 miss primitive_decimals_weight_3
  show ?thesis by blast
qed

text \<open>
  C9. Over any store, an Update that the store rejects is answered HTTP 500 with
  the text of the fault, whatever the code of the fault; the status of an Update is
  200, 404 or 500, so a collision on \<open>bilty_sl_no\<close> (code 23505) is never answered
  409, and a not-null violation never 400.
\<close>

theorem put_bilty_store_fault:
  fixes query :: "'s pool_query"
  shows "(bilty_values b = Inr vs \<and> query (Update (vs @ [Str path_id])) st = (Inl err, st')
            \<longrightarrow> fst (put_bilty query path_id b st) =
                  \<lparr>status = 500, payload = JsonError (''Server error: '' @ message err)\<rparr>)
       \<and> status (fst (put_bilty query path_id b st)) \<in> {200, 404, 500}"
  by (auto simp: put_bilty_def put_catch_def not_found_response_def split: sum.splits prod.splits)

text \<open>An Update of row 2 to the \<open>bilty_sl_no\<close> of row 1: the store raises 23505, the
  answer is HTTP 500.\<close>

theorem put_bilty_store_fault_witness:
  "bilty_values req_B1_5 = Inr values_B1_5
   \<and> pg_query (Update (values_B1_5 @ [Str ''2''])) two_rows = (Inl unique_violation, two_rows)
   \<and> code unique_violation = Some ''23505''
   \<and> fst (put_bilty pg_query ''2'' req_B1_5 two_rows)
      = \<lparr>status = 500, payload = JsonError (''Server error: '' @ message unique_violation)\<rparr>"
  using put_bilty_store_fault [where b = req_B1_5 and vs = values_B1_5 and query = pg_query
      and path_id = "''2''" and st = two_rows and err = unique_violation and st' = two_rows]
    bilty_values_B1_5 update_2_B1_two_rows
  by (simp add: unique_violation_def)

section \<open>Delete\<close>

lemma delete_bilty_hit:
  assumes "pg_int4_in path_id = Inr n" and "n \<in> row_id ` set (bilty_data st)"
  shows "delete_bilty pg_query path_id st =
     (\<lparr>status = 204, payload = NoBody\<rparr>,
      st\<lparr>bilty_data := filter (\<lambda>x. row_id x \<noteq> n) (bilty_data st)\<rparr>)"
proof -
  from assms(2) have "filter (\<lambda>x. row_id x = n) (bilty_data st) \<noteq> []"
    by (simp add: filter_id_empty_iff)
  then show ?thesis
    by (simp add: delete_bilty_def pg_delete_valid [OF assms(1)])
qed

lemma delete_bilty_miss:
  assumes "pg_int4_in path_id = Inr n" and "n \<notin> row_id ` set (bilty_data st)"
  shows "delete_bilty pg_query path_id st =
     (\<lparr>status = 404, payload = JsonError ''Bilty entry not found.''\<rparr>, st)"
proof -
  from assms(2) have "filter (\<lambda>x. row_id x = n) (bilty_data st) = []"
    by (simp add: filter_id_empty_iff)
  moreover from assms(2) have "filter (\<lambda>x. row_id x \<noteq> n) (bilty_data st) = bilty_data st"
    by (rule filter_other_ids)
  ultimately show ?thesis
    by (simp add: delete_bilty_def pg_delete_valid [OF assms(1)] not_found_response_def)
qed

lemma get_bilty_pg:
  "get_bilty pg_query st =
     (\<lparr>status = 200,
       payload = JsonRows (map Row (map JSON_row (rev (sort_key row_id (bilty_data st)))))\<rparr>, st)"
  by (simp add: get_bilty_def pg_select_def JSON_stringify_Row)

text \<open>
  C7. A Delete with a numeric path identifier: if a stored row has that id, the row
  is removed and the answer is HTTP 204 without a body, a List that follows does not
  hold the id, and a second Delete of the same id is answered HTTP 404; if no stored
  row has that id, the answer is HTTP 404 and the store is as before.
\<close>

theorem delete_bilty_outcome:
  assumes "pg_int4_in path_id = Inr n"
  shows "(n \<in> row_id ` set (bilty_data st) \<longrightarrow>
           delete_bilty pg_query path_id st =
             (\<lparr>status = 204, payload = NoBody\<rparr>,
              st\<lparr>bilty_data := filter (\<lambda>x. row_id x \<noteq> n) (bilty_data st)\<rparr>)
         \<and> (\<exists>rs. fst (get_bilty pg_query (snd (delete_bilty pg_query path_id st))) =
                    \<lparr>status = 200, payload = JsonRows (map Row rs)\<rparr>
                \<and> n \<notin> row_id ` set rs)
         \<and> fst (delete_bilty pg_query path_id (snd (delete_bilty pg_query path_id st))) =
              \<lparr>status = 404, payload = JsonError ''Bilty entry not found.''\<rparr>)
       \<and> (n \<notin> row_id ` set (bilty_data st) \<longrightarrow>
            delete_bilty pg_query path_id st =
              (\<lparr>status = 404, payload = JsonError ''Bilty entry not found.''\<rparr>, st))"
proof (intro conjI impI)
  assume hit: "n \<in> row_id ` set (bilty_data st)"
  let ?st' = "st\<lparr>bilty_data := filter (\<lambda>x. row_id x \<noteq> n) (bilty_data st)\<rparr>"
  let ?rs = "map JSON_row (rev (sort_key row_id (bilty_data ?st')))"
  have gone: "n \<notin> row_id ` set (bilty_data ?st')" by auto
  show del: "delete_bilty pg_query path_id st = (\<lparr>status = 204, payload = NoBody\<rparr>, ?st')"
    by (rule delete_bilty_hit [OF assms hit])
  have "fst (get_bilty pg_query ?st') = \<lparr>status = 200, payload = JsonRows (map Row ?rs)\<rparr>"
    by (simp add: get_bilty_pg)
  moreover have "n \<notin> row_id ` set ?rs"
    using gone by (auto simp: row_id_JSON_row)
  ultimately show "\<exists>rs. fst (get_bilty pg_query (snd (delete_bilty pg_query path_id st))) =
        \<lparr>status = 200, payload = JsonRows (map Row rs)\<rparr> \<and> n \<notin> row_id ` set rs"
    unfolding del snd_conv by blast
  show "fst (delete_bilty pg_query path_id (snd (delete_bilty pg_query path_id st))) =
      \<lparr>status = 404, payload = JsonError ''Bilty entry not found.''\<rparr>"
    unfolding del snd_conv by (simp add: delete_bilty_miss [OF assms gone])
next
  assume "n \<notin> row_id ` set (bilty_data st)"
  then show "delete_bilty pg_query path_id st =
      (\<lparr>status = 404, payload = JsonError ''Bilty entry not found.''\<rparr>, st)"
    by (rule delete_bilty_miss [OF assms])
qed

text \<open>Delete of row 2 from the table of two rows, twice.\<close>

theorem delete_bilty_outcome_witness:
  "pg_int4_in ''2'' = Inr 2 \<and> 2 \<in> row_id ` set (bilty_data two_rows)
   \<and> delete_bilty pg_query ''2'' two_rows =
       (\<lparr>status = 204, payload = NoBody\<rparr>,
        \<lparr>bilty_data = [blank_row 1 ''B1'' (Num (Dec 125 (- 1)))], id_seq = 3\<rparr>)
   \<and> fst (delete_bilty pg_query ''2'' (snd (delete_bilty pg_query ''2'' two_rows))) =
       \<lparr>status = 404, payload = JsonError ''Bilty entry not found.''\<rparr>"
proof -
  have st': "two_rows\<lparr>bilty_data := filter (\<lambda>x. row_id x \<noteq> 2) (bilty_data two_rows)\<rparr>
      = \<lparr>bilty_data = [blank_row 1 ''B1'' (Num (Dec 125 (- 1)))], id_seq = 3\<rparr>"
    by (simp add: two_rows_def blank_row_def)
  from delete_bilty_outcome [OF pg_int4_in_2, of two_rows] two_rows_has_2
  have a: "delete_bilty pg_query ''2'' two_rows = (\<lparr>status = 204, payload = NoBody\<rparr>,
        two_rows\<lparr>bilty_data := filter (\<lambda>x. row_id x \<noteq> 2) (bilty_data two_rows)\<rparr>)"
    and c: "fst (delete_bilty pg_query ''2'' (snd (delete_bilty pg_query ''2'' two_rows))) =
       \<lparr>status = 404, payload = JsonError ''Bilty entry not found.''\<rparr>"
    by blast+
  from a st' have "delete_bilty pg_query ''2'' two_rows = (\<lparr>status = 204, payload = NoBody\<rparr>,
        \<lparr>bilty_data = [blank_row 1 ''B1'' (Num (Dec 125 (- 1)))], id_seq = 3\<rparr>)"
    by simp
  with c two_rows_has_2 pg_int4_in_2 show ?thesis by blast
qed

section \<open>Identifiers that are not numeric\<close>

text \<open>
  C10. Update and Delete hand the path identifier to the store as the string it
  is. When that string is not the text of an integer, the store faults on it and the
  answer is HTTP 500, not 404: for Update with the text of the fault (whatever the
  body, the status is 500), for Delete with the fixed message; the store is as before.
\<close>

theorem invalid_id_is_500:
  assumes "pg_int4_in path_id = Inl err"
  shows "status (fst (put_bilty pg_query path_id b st)) = 500
       \<and> snd (put_bilty pg_query path_id b st) = st
       \<and> (primitive_decimals b \<longrightarrow> fst (put_bilty pg_query path_id b st) =
            \<lparr>status = 500, payload = JsonError (''Server error: '' @ message err)\<rparr>)
       \<and> delete_bilty pg_query path_id st =
           (\<lparr>status = 500, payload = JsonError ''Server error deleting bilty entry.''\<rparr>, st)"
proof (intro conjI impI)
  have put: "put_bilty pg_query path_id b st =
     (case bilty_values b of Inl e \<Rightarrow> (put_catch e, st) | Inr vs \<Rightarrow> (put_catch err, st))"
    by (simp add: put_bilty_def pg_update_invalid [OF assms] split: sum.split)
  show "status (fst (put_bilty pg_query path_id b st)) = 500"
    by (simp add: put put_catch_def split: sum.split)
  show "snd (put_bilty pg_query path_id b st) = st"
    by (simp add: put split: sum.split)
  show "delete_bilty pg_query path_id st =
      (\<lparr>status = 500, payload = JsonError ''Server error deleting bilty entry.''\<rparr>, st)"
    using assms by (simp add: delete_bilty_def pg_delete_def)
next
  assume "primitive_decimals b"
  then obtain vs where vs: "bilty_values b = Inr vs"
    using bilty_values_primitive by blast
  then show "fst (put_bilty pg_query path_id b st) =
      \<lparr>status = 500, payload = JsonError (''Server error: '' @ message err)\<rparr>"
    by (simp add: put_bilty_def pg_update_invalid [OF assms] put_catch_def)
qed

text \<open>The identifier \<open>abc\<close> on the table of two rows.\<close>

theorem invalid_id_is_500_witness:
  "pg_int4_in ''abc'' = Inl (invalid_text_representation ''abc'')
   \<and> put_bilty pg_query ''abc'' req_weight_3 two_rows =
       (\<lparr>status = 500, payload =
           JsonError (''Server error: '' @ message (invalid_text_representation ''abc''))\<rparr>,
        two_rows)
   \<and> delete_bilty pg_query ''abc'' two_rows =
       (\<lparr>status = 500, payload = JsonError ''Server error deleting bilty entry.''\<rparr>, two_rows)"
proof -
  from invalid_id_is_500 [OF pg_int4_in_abc, of req_weight_3 two_rows] primitive_decimals_weight_3
  have "fst (put_bilty pg_query ''abc'' req_weight_3 two_rows) =
      \<lparr>status = 500, payload =
         JsonError (''Server error: '' @ message (invalid_text_representation ''abc''))\<rparr>"
    and "snd (put_bilty pg_query ''abc'' req_weight_3 two_rows) = two_rows"
    and "delete_bilty pg_query ''abc'' two_rows =
       (\<lparr>status = 500, payload = JsonError ''Server error deleting bilty entry.''\<rparr>, two_rows)"
    by blast+
  then show ?thesis
    using pg_int4_in_abc by (simp add: prod_eq_iff)
qed

section \<open>List\<close>



end
